theory Spec2Isabelle
  imports
    Complex_Main
    "HOL-Library.Sublist"
    "HOL-Library.Multiset"
    "HOL-Library.Char_ord"
    "HOL-Library.List_Lexorder"
begin

section \<open>Strings\<close>

text \<open>
  A Python \<open>str\<close> is modelled as a \<open>string\<close> whose characters are the code points
  U+0000 to U+00FF. On that range the character classes below are exactly the ones of
  CPython: \<open>str.isspace\<close> and the regular expression class \<open>\s\<close> agree, \<open>str.lower\<close>
  maps a character to a single character of the same range, and \<open>\w\<close> is the class of
  alphanumeric characters and the underscore. Code points above U+00FF are outside the
  model.
\<close>

definition is_space :: "char \<Rightarrow> bool" where
  "is_space c = (let n = (of_char c :: nat) in
     (9 \<le> n \<and> n \<le> 13) \<or> (28 \<le> n \<and> n \<le> 32) \<or> n = 133 \<or> n = 160)"

definition lower_char :: "char \<Rightarrow> char" where
  "lower_char c = (let n = (of_char c :: nat) in
     if (65 \<le> n \<and> n \<le> 90) \<or> (192 \<le> n \<and> n \<le> 222 \<and> n \<noteq> 215)
     then char_of (n + 32) else c)"

definition lower :: "string \<Rightarrow> string" where
  "lower s = map lower_char s"

text \<open>
  \<open>str.upper\<close>, used by the source only on the entity patterns: on the three characters
  U+00B5, U+00DF and U+00FF Python leaves the range of the model, and the model leaves
  them unchanged.
\<close>

definition upper_char :: "char \<Rightarrow> char" where
  "upper_char c = (let n = (of_char c :: nat) in
     if (97 \<le> n \<and> n \<le> 122) \<or> (224 \<le> n \<and> n \<le> 254 \<and> n \<noteq> 247)
     then char_of (n - 32) else c)"

definition upper :: "string \<Rightarrow> string" where
  "upper s = map upper_char s"

definition is_word_char :: "char \<Rightarrow> bool" where
  "is_word_char c = (let n = (of_char c :: nat) in
     (48 \<le> n \<and> n \<le> 57) \<or> (65 \<le> n \<and> n \<le> 90) \<or> n = 95 \<or> (97 \<le> n \<and> n \<le> 122)
     \<or> n = 170 \<or> n = 178 \<or> n = 179 \<or> n = 181 \<or> n = 185 \<or> n = 186
     \<or> n = 188 \<or> n = 189 \<or> n = 190
     \<or> (192 \<le> n \<and> n \<le> 255 \<and> n \<noteq> 215 \<and> n \<noteq> 247))"

text \<open>\<open>s.strip(chars)\<close> and \<open>s.strip()\<close>.\<close>

definition strip_chars :: "(char \<Rightarrow> bool) \<Rightarrow> string \<Rightarrow> string" where
  "strip_chars p s = rev (dropWhile p (rev (dropWhile p s)))"

definition strip :: "string \<Rightarrow> string" where
  "strip s = strip_chars is_space s"

definition startswith :: "string \<Rightarrow> string \<Rightarrow> bool" where
  "startswith s p = (take (length p) s = p)"

section \<open>normalization.py\<close>

text \<open>\<open>_WHITESPACE_RE.sub(" ", value)\<close>: every maximal run of whitespace becomes one space.\<close>

function sub_whitespace :: "string \<Rightarrow> string" where
  "sub_whitespace [] = []"
| "sub_whitespace (c # cs) =
     (if is_space c then CHR '' '' # sub_whitespace (dropWhile is_space cs)
      else c # sub_whitespace cs)"
  by pat_completeness auto
termination
  by (relation "measure length") (auto simp: less_Suc_eq_le length_dropWhile_le)

definition normalize_text :: "string \<Rightarrow> string" where
  "normalize_text v = (if v = [] then [] else strip (sub_whitespace v))"

definition normalize_title :: "string \<Rightarrow> string" where
  "normalize_title v = lower (normalize_text v)"

subsection \<open>urllib.parse\<close>

datatype error = ValueError | IndexError

record parse_result =
  scheme :: string
  netloc :: string
  path :: string
  params :: string
  query :: string
  fragment :: string

definition uses_netloc :: "string list" where
  "uses_netloc = ['''', ''ftp'', ''http'', ''gopher'', ''nntp'', ''telnet'',
     ''imap'', ''wais'', ''file'', ''mms'', ''https'', ''shttp'',
     ''snews'', ''prospero'', ''rtsp'', ''rtsps'', ''rtspu'', ''rsync'',
     ''svn'', ''svn+ssh'', ''sftp'', ''nfs'', ''git'', ''git+ssh'',
     ''ws'', ''wss'']"

definition uses_params :: "string list" where
  "uses_params = ['''', ''ftp'', ''hdl'', ''prospero'', ''http'', ''imap'',
     ''https'', ''shttp'', ''rtsp'', ''rtsps'', ''rtspu'', ''sip'',
     ''sips'', ''mms'', ''sftp'', ''tel'']"

definition is_ascii_alpha :: "char \<Rightarrow> bool" where
  "is_ascii_alpha c = (let n = (of_char c :: nat) in
     (65 \<le> n \<and> n \<le> 90) \<or> (97 \<le> n \<and> n \<le> 122))"

definition is_scheme_char :: "char \<Rightarrow> bool" where
  "is_scheme_char c = (let n = (of_char c :: nat) in
     (65 \<le> n \<and> n \<le> 90) \<or> (97 \<le> n \<and> n \<le> 122) \<or> (48 \<le> n \<and> n \<le> 57)
     \<or> c = CHR ''+'' \<or> c = CHR ''-'' \<or> c = CHR ''.'')"

text \<open>
  \<open>urlsplit(url)\<close> of CPython 3.11, with the default arguments. It strips leading C0
  controls and spaces, removes tab, carriage return and line feed, splits off a scheme
  (a prefix of scheme characters that starts with an ASCII letter and ends before the
  first colon), then the authority after \<open>//\<close>, the fragment after the first \<open>#\<close> and
  the query after the first \<open>?\<close>.

  The library raises \<open>ValueError\<close> when the authority has an unmatched square bracket, and
  when a bracketed host is not an IPv6 or IPvFuture literal. The validation of IP
  literals is not modelled: the model raises on every authority that contains a square
  bracket, so a result \<open>Inr\<close> of the model is the result of the library, and \<open>Inl\<close> means
  that the library raises or that the URL has a bracketed host. The NFKC check of the
  library never fires on code points up to U+00FF.
\<close>

definition urlsplit :: "string \<Rightarrow> error + (string \<times> string \<times> string \<times> string \<times> string)" where
  "urlsplit url0 =
    (let url1 = dropWhile (\<lambda>c. (of_char c :: nat) \<le> 32) url0;
         url2 = filter (\<lambda>c. (of_char c :: nat) \<notin> {9, 13, 10}) url1;
         pre = takeWhile (\<lambda>c. c \<noteq> CHR '':'') url2;
         has_scheme = (CHR '':'' \<in> set url2 \<and> pre \<noteq> [] \<and> is_ascii_alpha (hd url2)
                        \<and> list_all is_scheme_char pre);
         sch = (if has_scheme then lower pre else []);
         url3 = (if has_scheme then drop (length pre + 1) url2 else url2);
         is_delim = (\<lambda>c. c = CHR ''/'' \<or> c = CHR ''?'' \<or> c = CHR ''#'');
         has_netloc = (take 2 url3 = ''//'');
         nl = (if has_netloc then takeWhile (\<lambda>c. \<not> is_delim c) (drop 2 url3) else []);
         url4 = (if has_netloc then dropWhile (\<lambda>c. \<not> is_delim c) (drop 2 url3) else url3)
     in if CHR ''['' \<in> set nl \<or> CHR '']'' \<in> set nl then Inl ValueError
        else
          let frag = (if CHR ''#'' \<in> set url4
                      then drop 1 (dropWhile (\<lambda>c. c \<noteq> CHR ''#'') url4) else []);
              url5 = takeWhile (\<lambda>c. c \<noteq> CHR ''#'') url4;
              qry = (if CHR ''?'' \<in> set url5
                      then drop 1 (dropWhile (\<lambda>c. c \<noteq> CHR ''?'') url5) else []);
              url6 = takeWhile (\<lambda>c. c \<noteq> CHR ''?'') url5
          in Inr (sch, nl, url6, qry, frag))"

text \<open>
  \<open>_splitparams(url)\<close>: the parameters start at the first semicolon after the last slash
  (at the first semicolon when there is no slash).
\<close>

definition splitparams :: "string \<Rightarrow> string \<times> string" where
  "splitparams url =
    (if CHR ''/'' \<in> set url then
       (let after = rev (takeWhile (\<lambda>c. c \<noteq> CHR ''/'') (rev url));
            upto = take (length url - length after - 1) url;
            tl_part = CHR ''/'' # after
        in if CHR '';'' \<in> set tl_part
           then (upto @ takeWhile (\<lambda>c. c \<noteq> CHR '';'') tl_part,
                 drop 1 (dropWhile (\<lambda>c. c \<noteq> CHR '';'') tl_part))
           else (url, []))
     else (takeWhile (\<lambda>c. c \<noteq> CHR '';'') url,
           drop 1 (dropWhile (\<lambda>c. c \<noteq> CHR '';'') url)))"

definition urlparse :: "string \<Rightarrow> error + parse_result" where
  "urlparse url =
    (case urlsplit url of
       Inl e \<Rightarrow> Inl e
     | Inr (sch, nl, u, qry, frag) \<Rightarrow>
         (let (u', ps) = (if sch \<in> set uses_params \<and> CHR '';'' \<in> set u
                          then splitparams u else (u, []))
          in Inr \<lparr>scheme = sch, netloc = nl, path = u', params = ps,
                   query = qry, fragment = frag\<rparr>))"

definition urlunsplit :: "string \<Rightarrow> string \<Rightarrow> string \<Rightarrow> string \<Rightarrow> string \<Rightarrow> string" where
  "urlunsplit sch nl url0 qry frag =
    (let url1 = (if nl \<noteq> [] \<or> (sch \<noteq> [] \<and> sch \<in> set uses_netloc) \<or> take 2 url0 = ''//''
                 then ''//'' @ nl @ (if url0 \<noteq> [] \<and> take 1 url0 \<noteq> ''/'' then ''/'' @ url0 else url0)
                 else url0);
         url2 = (if sch \<noteq> [] then sch @ '':'' @ url1 else url1);
         url3 = (if qry \<noteq> [] then url2 @ ''?'' @ qry else url2)
     in if frag \<noteq> [] then url3 @ ''#'' @ frag else url3)"

definition urlunparse :: "parse_result \<Rightarrow> string" where
  "urlunparse p =
    urlunsplit (scheme p) (netloc p)
      (if params p \<noteq> [] then path p @ '';'' @ params p else path p)
      (query p) (fragment p)"

subsection \<open>canonicalize_url\<close>

definition canonicalize_url :: "string \<Rightarrow> error + string" where
  "canonicalize_url url =
    (case urlparse url of
       Inl e \<Rightarrow> Inl e
     | Inr parsed \<Rightarrow>
         (let scheme' = (if scheme parsed \<noteq> [] then scheme parsed else ''https'');
              netloc0 = lower (netloc parsed);
              netloc' = (if startswith netloc0 ''www.'' then drop 4 netloc0 else netloc0);
              path' = (if path parsed \<noteq> [] then path parsed else ''/'');
              query' = query parsed
          in Inr (urlunparse \<lparr>scheme = scheme', netloc = netloc', path = path',
                                params = [], query = query', fragment = []\<rparr>)))"

section \<open>hashlib.sha256\<close>

text \<open>
  \<open>hashlib.sha256(b).hexdigest()\<close> belongs to the standard library: it is a parameter
  \<open>sha256_hexdigest\<close> of the functions that call it, a function from byte strings to
  digests. Bytes are numbers below 256.

  \<open>str.encode("utf-8")\<close> on code points up to U+00FF: one byte below U+0080, two bytes
  from there on.
\<close>

definition encode_utf8 :: "string \<Rightarrow> nat list" where
  "encode_utf8 s = concat (map (\<lambda>c. let n = of_char c in
      if n < 128 then [n] else [192 + n div 64, 128 + n mod 64]) s)"

section \<open>schemas.py\<close>

text \<open>
  \<open>NewsItem\<close>, as validated by the request schema. \<open>published_at\<close> and \<open>fetched_at\<close> are
  timezone-aware instants, counted in microseconds of UTC (the resolution of \<open>datetime\<close>),
  so \<open>ensure_utc\<close> is the identity on them. The field \<open>id\<close> is named \<open>item_id\<close>.
\<close>

record news_item =
  item_id :: string
  source :: string
  url :: string
  title :: string
  summary :: "string option"
  published_at :: int
  fetched_at :: int
  content_text :: string
  language :: string
  hash :: string

text \<open>
  \<open>NewsCluster\<close>. Its field \<open>summary\<close> is named \<open>cluster_summary\<close>; every entry of
  \<open>links\<close> is a dictionary with the keys \<open>source\<close>, \<open>url\<close> and \<open>title\<close>, kept as an
  association list in the order of the dictionary literal. Floats are modelled as reals.
\<close>

record news_cluster =
  schema_version :: int
  cluster_id :: string
  canonical_title :: string
  cluster_summary :: string
  score :: real
  source_count :: nat
  entities :: "string list"
  sentiment_hint :: "string option"
  first_seen :: int
  last_seen :: int
  links :: "(string \<times> string) list list"

section \<open>dedupe.py\<close>

definition compute_hash :: "(nat list \<Rightarrow> 'd) \<Rightarrow> string \<Rightarrow> string \<Rightarrow> 'd" where
  "compute_hash sha256_hexdigest ttl content =
     (let normalized = encode_utf8 (normalize_title ttl @ ''::'' @ content)
      in sha256_hexdigest normalized)"

text \<open>
  \<open>fuzz.token_sort_ratio\<close> of the rapidfuzz library is a parameter \<open>tsr\<close> of every
  function that calls it: a function from two strings to a number between 0 and 100.

  The inner loop of \<open>dedupe_items\<close>: the accepted records are scanned in order, and the
  scan stops at the first one that has the hash of the candidate, or its canonical URL,
  or a title similar enough. The two calls of \<open>canonicalize_url\<close> are made only when the
  hashes differ, the one on the accepted record first; an exception leaves the loop.
\<close>

fun find_duplicate ::
  "(string \<Rightarrow> string \<Rightarrow> real) \<Rightarrow> real \<Rightarrow> news_item list \<Rightarrow> news_item \<Rightarrow> error + bool" where
  "find_duplicate tsr threshold [] item = Inr False"
| "find_duplicate tsr threshold (existing # rest) item =
     (if hash existing = hash item then Inr True
      else case canonicalize_url (url existing) of
        Inl e \<Rightarrow> Inl e
      | Inr u_existing \<Rightarrow>
          (case canonicalize_url (url item) of
             Inl e \<Rightarrow> Inl e
           | Inr u_item \<Rightarrow>
               if u_existing = u_item then Inr True
               else if tsr (normalize_title (title existing)) (normalize_title (title item)) / 100.0
                         \<ge> threshold
               then Inr True
               else find_duplicate tsr threshold rest item))"

fun dedupe_loop ::
  "(string \<Rightarrow> string \<Rightarrow> real) \<Rightarrow> real \<Rightarrow> news_item list \<Rightarrow> news_item list
     \<Rightarrow> error + news_item list" where
  "dedupe_loop tsr threshold result [] = Inr result"
| "dedupe_loop tsr threshold result (item # items) =
     (case find_duplicate tsr threshold result item of
        Inl e \<Rightarrow> Inl e
      | Inr duplicate \<Rightarrow>
          if \<not> duplicate then dedupe_loop tsr threshold (result @ [item]) items
          else dedupe_loop tsr threshold result items)"

definition dedupe_items ::
  "(string \<Rightarrow> string \<Rightarrow> real) \<Rightarrow> news_item list \<Rightarrow> real \<Rightarrow> error + news_item list" where
  "dedupe_items tsr items threshold = dedupe_loop tsr threshold [] items"

text \<open>
  The record builder of \<open>api/news_fetch.py\<close> (\<open>hydrate_entry\<close>), as far as the hash goes:
  the content is normalized first, and the hash is computed from the normalized content.
\<close>

definition hydrate_hash :: "(nat list \<Rightarrow> 'd) \<Rightarrow> string \<Rightarrow> string \<Rightarrow> 'd" where
  "hydrate_hash sha256_hexdigest ttl content =
     (let content_norm = normalize_text content
      in compute_hash sha256_hexdigest ttl content_norm)"

text \<open>The three conditions of a match, for two records whose URLs canonicalize.\<close>

definition matches ::
  "(string \<Rightarrow> string \<Rightarrow> real) \<Rightarrow> real \<Rightarrow> news_item \<Rightarrow> news_item \<Rightarrow> bool" where
  "matches tsr threshold accepted candidate =
     (hash accepted = hash candidate
      \<or> canonicalize_url (url accepted) = canonicalize_url (url candidate)
      \<or> tsr (normalize_title (title accepted)) (normalize_title (title candidate)) / 100
            \<ge> threshold)"

definition url_ok :: "news_item \<Rightarrow> bool" where
  "url_ok item = (case canonicalize_url (url item) of Inl e \<Rightarrow> False | Inr u \<Rightarrow> True)"

text \<open>
  An accumulator is clean when the scan of the records before any of its records finds
  no match for that record, and raises nothing.
\<close>

definition clean :: "(string \<Rightarrow> string \<Rightarrow> real) \<Rightarrow> real \<Rightarrow> news_item list \<Rightarrow> bool" where
  "clean tsr threshold ys =
     (\<forall>k < length ys. find_duplicate tsr threshold (take k ys) (ys ! k) = Inr False)"

section \<open>confirm.py\<close>

definition SOURCE_WEIGHTS :: "(string \<times> real) list" where
  "SOURCE_WEIGHTS = [(''coindesk'', 1.0), (''theblock'', 1.0), (''blockworks'', 1.0),
     (''cryptopanic'', 2.0), (''messari'', 1.0)]"

definition backslash :: char where
  "backslash = CHR 0x5C"

definition word_pattern :: "string \<Rightarrow> string" where
  "word_pattern w = [backslash, CHR ''b''] @ w @ [backslash, CHR ''b'']"

definition ENTITY_PATTERNS :: "string list" where
  "ENTITY_PATTERNS = [word_pattern ''BTC'', word_pattern ''ETH'', word_pattern ''SOL'',
     word_pattern ''XRP'', word_pattern ''SEC'', word_pattern ''ETF'', word_pattern ''hack'',
     word_pattern ''funding rate'', word_pattern ''listing'']"

subsection \<open>re.search\<close>

text \<open>
  The regular expressions of \<open>ENTITY_PATTERNS\<close> use two constructs: the word boundary,
  written as a backslash and \<open>b\<close>, and literal characters. \<open>re_compile\<close> reads a pattern
  of that fragment; \<open>re_search\<close> is \<open>re.search(pattern, text, re.IGNORECASE)\<close> seen as a
  truth value. A boundary lies between a word character and a character that is not one,
  the two ends of the text counting as not one.
\<close>

datatype re_atom = Boundary | Literal char

fun re_compile :: "string \<Rightarrow> re_atom list" where
  "re_compile (c # d # cs) =
     (if c = backslash \<and> d = CHR ''b'' then Boundary # re_compile cs
      else Literal c # re_compile (d # cs))"
| "re_compile [c] = [Literal c]"
| "re_compile [] = []"

fun re_match_here :: "re_atom list \<Rightarrow> bool \<Rightarrow> string \<Rightarrow> bool" where
  "re_match_here [] prev_word rest = True"
| "re_match_here (Boundary # atoms) prev_word rest =
     ((prev_word \<noteq> (case rest of [] \<Rightarrow> False | x # xs \<Rightarrow> is_word_char x))
      \<and> re_match_here atoms prev_word rest)"
| "re_match_here (Literal c # atoms) prev_word [] = False"
| "re_match_here (Literal c # atoms) prev_word (x # xs) =
     (lower_char c = lower_char x \<and> re_match_here atoms (is_word_char x) xs)"

fun re_search_from :: "re_atom list \<Rightarrow> bool \<Rightarrow> string \<Rightarrow> bool" where
  "re_search_from atoms prev_word [] = re_match_here atoms prev_word []"
| "re_search_from atoms prev_word (x # xs) =
     (re_match_here atoms prev_word (x # xs) \<or> re_search_from atoms (is_word_char x) xs)"

definition re_search :: "string \<Rightarrow> string \<Rightarrow> bool" where
  "re_search pattern text = re_search_from (re_compile pattern) False text"

subsection \<open>extract_entities\<close>

text \<open>
  \<open>pattern.strip(r"\b")\<close> strips the characters backslash and \<open>b\<close> from both ends. The set
  of entities is kept as a list without duplicates, and \<open>sorted\<close> orders it by code
  points.
\<close>

definition bare_token :: "string \<Rightarrow> string" where
  "bare_token pattern = upper (strip_chars (\<lambda>c. c = backslash \<or> c = CHR ''b'') pattern)"

definition extract_entities :: "string \<Rightarrow> string list" where
  "extract_entities text =
     (let lowered = lower text
      in sort (remdups (map bare_token
           (filter (\<lambda>pattern. re_search pattern lowered) ENTITY_PATTERNS))))"

subsection \<open>score_cluster\<close>

text \<open>
  The reading of the clock, \<open>datetime.now(timezone.utc)\<close>, is the argument \<open>now\<close>, in
  microseconds like \<open>published_at\<close>. \<open>total_seconds() / 3600\<close> is the difference in hours.
  \<open>round(x, 4)\<close> rounds to four decimals, a tie to the even neighbour.
\<close>

definition max_list :: "'a::linorder \<Rightarrow> 'a list \<Rightarrow> 'a" where
  "max_list x xs = foldl max x xs"

definition min_list' :: "'a::linorder \<Rightarrow> 'a list \<Rightarrow> 'a" where
  "min_list' x xs = foldl min x xs"

definition total_seconds :: "int \<Rightarrow> real" where
  "total_seconds delta = real_of_int delta / 1000000"

definition delta_hours :: "int \<Rightarrow> news_item list \<Rightarrow> real" where
  "delta_hours now items =
     (let latest = max_list (published_at (hd items)) (map published_at (tl items))
      in max 1 (total_seconds (now - latest) / 3600))"

definition freshness :: "int \<Rightarrow> news_item list \<Rightarrow> real" where
  "freshness now items =
     (if items \<noteq> [] then max 0.0 (1.0 - (delta_hours now items / 24.0)) else 0.0)"

definition source_weight :: "news_item list \<Rightarrow> real" where
  "source_weight items =
     (let sources = remdups (map source items)
      in sum_list (map (\<lambda>s. case map_of SOURCE_WEIGHTS s of Some w \<Rightarrow> w | None \<Rightarrow> 0.5) sources))"

definition round4 :: "real \<Rightarrow> real" where
  "round4 x =
     (let y = x * 10000; f = \<lfloor>y\<rfloor>;
          n = (if y - of_int f < 1 / 2 then f
               else if y - of_int f > 1 / 2 then f + 1
               else if even f then f else f + 1)
      in of_int n / 10000)"

definition score_cluster :: "int \<Rightarrow> news_item list \<Rightarrow> real \<Rightarrow> real" where
  "score_cluster now items similarity =
     round4 (0.6 * similarity + 0.3 * source_weight items + 0.1 * freshness now items)"

subsection \<open>cluster_news_items\<close>

text \<open>
  A cluster under construction is the list of its items. The inner loop looks for the
  first cluster whose last item is within the window of the candidate and has a similar
  title, and gives its index.
\<close>

fun find_cluster ::
  "(string \<Rightarrow> string \<Rightarrow> real) \<Rightarrow> int \<Rightarrow> real \<Rightarrow> news_item list list \<Rightarrow> news_item
     \<Rightarrow> error + nat option" where
  "find_cluster tsr window threshold [] item = Inr None"
| "find_cluster tsr window threshold (cluster # clusters) item =
     (if cluster = [] then Inl IndexError
      else
        let last_item = last cluster in
        if \<bar>published_at item - published_at last_item\<bar> > window
        then map_sum id (map_option Suc) (find_cluster tsr window threshold clusters item)
        else if tsr (normalize_title (title last_item)) (normalize_title (title item)) / 100.0
                  \<ge> threshold
        then Inr (Some 0)
        else map_sum id (map_option Suc) (find_cluster tsr window threshold clusters item))"

fun group_loop ::
  "(string \<Rightarrow> string \<Rightarrow> real) \<Rightarrow> int \<Rightarrow> real \<Rightarrow> news_item list list \<Rightarrow> news_item list
     \<Rightarrow> error + news_item list list" where
  "group_loop tsr window threshold clusters [] = Inr clusters"
| "group_loop tsr window threshold clusters (item # items) =
     (case find_cluster tsr window threshold clusters item of
        Inl e \<Rightarrow> Inl e
      | Inr (Some i) \<Rightarrow>
          group_loop tsr window threshold (clusters[i := clusters ! i @ [item]]) items
      | Inr None \<Rightarrow> group_loop tsr window threshold (clusters @ [[item]]) items)"

definition cluster_groups ::
  "(string \<Rightarrow> string \<Rightarrow> real) \<Rightarrow> news_item list \<Rightarrow> int \<Rightarrow> real \<Rightarrow> error + news_item list list" where
  "cluster_groups tsr items window_minutes similarity_threshold =
     (let window = window_minutes * 60000000;
          sorted_items = sort_key published_at items
      in group_loop tsr window similarity_threshold [] sorted_items)"

definition intra_similarity :: "(string \<Rightarrow> string \<Rightarrow> real) \<Rightarrow> news_item list \<Rightarrow> real" where
  "intra_similarity tsr cluster_items =
     (if length cluster_items > 1
      then let base = normalize_title (title (hd cluster_items));
               sims = map (\<lambda>item. tsr base (normalize_title (title item)) / 100.0)
                        (tl cluster_items)
           in max_list (hd sims) (tl sims)
      else 0.0)"

definition join :: "string \<Rightarrow> string list \<Rightarrow> string" where
  "join sep xs = (case xs of [] \<Rightarrow> [] | y # ys \<Rightarrow> y @ concat (map (\<lambda>z. sep @ z) ys))"

definition link_of :: "news_item \<Rightarrow> (string \<times> string) list" where
  "link_of item = [(''source'', source item), (''url'', url item), (''title'', title item)]"

text \<open>
  One turn of the second loop, for the cluster \<open>cluster_items\<close>. The results of
  \<open>uuid.uuid4()\<close> and of the clock are the arguments \<open>uuid\<close> and \<open>now\<close>. \<open>min\<close> of an
  empty sequence raises \<open>ValueError\<close>.
\<close>

definition build_cluster ::
  "(string \<Rightarrow> string \<Rightarrow> real) \<Rightarrow> string \<Rightarrow> int \<Rightarrow> news_item list \<Rightarrow> error + news_cluster" where
  "build_cluster tsr uuid now cluster_items =
     (let similarity = intra_similarity tsr cluster_items;
          ents = extract_entities (join '' '' (map title cluster_items))
      in case cluster_items of
           [] \<Rightarrow> Inl ValueError
         | first # rest \<Rightarrow>
             Inr \<lparr>schema_version = 1,
                  cluster_id = uuid,
                  canonical_title = title first,
                  cluster_summary = (case summary first of
                                       None \<Rightarrow> title first
                                     | Some s \<Rightarrow> if s = [] then title first else s),
                  score = score_cluster now cluster_items similarity,
                  source_count = length (remdups (map source cluster_items)),
                  entities = ents,
                  sentiment_hint = None,
                  first_seen = min_list' (published_at first) (map published_at rest),
                  last_seen = max_list (published_at first) (map published_at rest),
                  links = map link_of cluster_items\<rparr>)"

text \<open>
  What an invocation reads from outside its arguments: \<open>uuid4 k\<close> is the result of the
  call of \<open>uuid.uuid4()\<close> for the cluster number \<open>k\<close>, and \<open>clock k\<close> the reading of
  \<open>datetime.now\<close> in the call of \<open>score_cluster\<close> for that cluster.
\<close>

record ambient =
  uuid4 :: "nat \<Rightarrow> string"
  clock :: "nat \<Rightarrow> int"

fun build_results ::
  "(string \<Rightarrow> string \<Rightarrow> real) \<Rightarrow> ambient \<Rightarrow> nat \<Rightarrow> news_item list list
     \<Rightarrow> error + news_cluster list" where
  "build_results tsr env k [] = Inr []"
| "build_results tsr env k (cluster # clusters) =
     (case build_cluster tsr (uuid4 env k) (clock env k) cluster of
        Inl e \<Rightarrow> Inl e
      | Inr c \<Rightarrow> map_sum id ((#) c) (build_results tsr env (Suc k) clusters))"

definition cluster_news_items ::
  "(string \<Rightarrow> string \<Rightarrow> real) \<Rightarrow> ambient \<Rightarrow> news_item list \<Rightarrow> int \<Rightarrow> real
     \<Rightarrow> error + news_cluster list" where
  "cluster_news_items tsr env items window_minutes similarity_threshold =
     (case cluster_groups tsr items window_minutes similarity_threshold of
        Inl e \<Rightarrow> Inl e
      | Inr clusters \<Rightarrow> build_results tsr env 0 clusters)"

section \<open>Example data\<close>

text \<open>A record with the given source, URL, title, hash and time of publication.\<close>

definition ex_item :: "string \<Rightarrow> string \<Rightarrow> string \<Rightarrow> string \<Rightarrow> int \<Rightarrow> news_item" where
  "ex_item s u t h p = \<lparr>item_id = ''1'', source = s, url = u, title = t, summary = None,
     published_at = p, fetched_at = p, content_text = '''', language = ''en'', hash = h\<rparr>"

text \<open>A similarity that tells equal strings from different ones.\<close>

definition ex_tsr :: "string \<Rightarrow> string \<Rightarrow> real" where
  "ex_tsr a b = (if a = b then 100 else 0)"

text \<open>Surroundings in which every identifier is \<open>id\<close> and every clock reading \<open>now\<close>.\<close>

definition ex_env :: "int \<Rightarrow> ambient" where
  "ex_env now = \<lparr>uuid4 = (\<lambda>k. ''id''), clock = (\<lambda>k. now)\<rparr>"

text \<open>Records for the examples of deduplication and of the chained window.\<close>

definition ex_a :: news_item where "ex_a = ex_item ''coindesk'' ''https://example.com/a'' ''Alpha'' ''h1'' 0"
definition ex_b :: news_item where "ex_b = ex_item ''theblock'' ''https://example.com/b'' ''Beta'' ''h2'' 1"
definition ex_b2 :: news_item where "ex_b2 = ex_item ''messari'' ''https://WWW.example.com/b#x'' ''Gamma'' ''h3'' 2"

definition ex_c1 :: news_item where "ex_c1 = ex_item ''coindesk'' ''https://example.com/1'' ''Same story'' ''h1'' 0"
definition ex_c2 :: news_item where "ex_c2 = ex_item ''theblock'' ''https://example.com/2'' ''same  story'' ''h2'' 360000000"
definition ex_c3 :: news_item where "ex_c3 = ex_item ''messari'' ''https://example.com/3'' ''SAME STORY '' ''h3'' 720000000"

definition ex_c4 :: news_item where "ex_c4 = ex_item ''blockworks'' ''https://example.com/4'' ''Same Story'' ''h4'' 1200000000"

section \<open>Auxiliary notions\<close>

text \<open>
  The test of the inner loop of the clusterer: the candidate is within the window of the
  anchor, and the similarity of the two normalized titles reaches the threshold.
\<close>

definition joins ::
  "(string \<Rightarrow> string \<Rightarrow> real) \<Rightarrow> int \<Rightarrow> real \<Rightarrow> news_item \<Rightarrow> news_item \<Rightarrow> bool" where
  "joins tsr window threshold anchor item =
     (\<bar>published_at item - published_at anchor\<bar> \<le> window
      \<and> tsr (normalize_title (title anchor)) (normalize_title (title item)) / 100 \<ge> threshold)"

text \<open>A cluster with its identifier and its score blanked out.\<close>

definition blank :: "news_cluster \<Rightarrow> news_cluster" where
  "blank c = c\<lparr>cluster_id := [], score := 0\<rparr>"

text \<open>The number of clusters of an invocation (0 when the grouping raises).\<close>

definition n_clusters :: "(string \<Rightarrow> string \<Rightarrow> real) \<Rightarrow> news_item list \<Rightarrow> int \<Rightarrow> real \<Rightarrow> nat" where
  "n_clusters tsr items window_minutes threshold =
     (case cluster_groups tsr items window_minutes threshold of
        Inl e \<Rightarrow> 0 | Inr clusters \<Rightarrow> length clusters)"

section \<open>Properties\<close>

lemma max_list_Max: "max_list (x::'a::linorder) xs = Max (set (x # xs))"
proof -
  have "(\<lambda>a s. max s a) = (max :: 'a \<Rightarrow> 'a \<Rightarrow> 'a)"
    by (intro ext) (simp add: max.commute)
  then have "foldl max x xs = fold max xs x"
    by (simp add: foldl_conv_fold)
  also have "\<dots> = Max (set (x # xs))"
    by (rule Max.set_eq_fold [symmetric])
  finally show ?thesis
    unfolding max_list_def .
qed

lemma latest_Max: "items \<noteq> [] \<Longrightarrow>
  max_list (published_at (hd items)) (map published_at (tl items)) = Max (published_at ` set items)"
  by (cases items) (simp_all add: max_list_Max)

text \<open>
  Claim C8. In the scorer the hours between the clock reading and the latest
  \<open>published_at\<close> of the cluster are clamped from below to 1, and the freshness is
  \<open>max(0, 1 - delta_hours / 24)\<close>. A newest member published 30 seconds before the clock
  reading gives one hour and the freshness \<open>1 - 1/24\<close>; the freshness is never 1; a newest
  member older than 24 hours gives the freshness 0. The score is computed from that
  freshness.
\<close>

theorem freshness_clamp:
  assumes "items \<noteq> []"
  shows "delta_hours now items
           = max 1 (real_of_int (now - Max (published_at ` set items)) / 1000000 / 3600)
       \<and> freshness now items = max 0 (1 - delta_hours now items / 24)
       \<and> (now - Max (published_at ` set items) = 30000000
            \<longrightarrow> delta_hours now items = 1 \<and> freshness now items = 1 - 1 / 24)
       \<and> freshness now items \<noteq> 1
       \<and> (now - Max (published_at ` set items) > 24 * 3600 * 1000000
            \<longrightarrow> freshness now items = 0)
       \<and> score_cluster now items similarity
           = round4 (0.6 * similarity + 0.3 * source_weight items + 0.1 * freshness now items)"
proof -
  let ?d = "now - Max (published_at ` set items)"
  have dh: "delta_hours now items = max 1 (real_of_int ?d / 1000000 / 3600)"
    using assms by (simp add: delta_hours_def total_seconds_def latest_Max)
  have fr: "freshness now items = max 0 (1 - delta_hours now items / 24)"
    using assms by (simp add: freshness_def)
  have ge1: "delta_hours now items \<ge> 1" by (simp add: dh)
  have ne1: "freshness now items \<noteq> 1" using ge1 by (simp add: fr max_def)
  have c30: "?d = 30000000 \<longrightarrow> delta_hours now items = 1 \<and> freshness now items = 1 - 1 / 24"
    by (simp add: fr dh)
  have old: "?d > 24 * 3600 * 1000000 \<longrightarrow> freshness now items = 0"
  proof
    assume h: "?d > 24 * 3600 * 1000000"
    then have "real_of_int ?d > 24 * 3600 * 1000000" by linarith
    then have "real_of_int ?d / 1000000 / 3600 > 24" by (simp add: field_simps)
    then have "delta_hours now items > 24" by (simp add: dh)
    then show "freshness now items = 0" by (simp add: fr)
  qed
  show ?thesis using dh fr c30 ne1 old by (simp add: score_cluster_def)
qed

theorem freshness_clamp_witness:
  "[ex_item ''coindesk'' ''https://a/'' ''T'' ''h'' 1000000] \<noteq> []
   \<and> delta_hours 31000000 [ex_item ''coindesk'' ''https://a/'' ''T'' ''h'' 1000000] = 1
   \<and> freshness 31000000 [ex_item ''coindesk'' ''https://a/'' ''T'' ''h'' 1000000] = 23 / 24"
  using freshness_clamp [of "[ex_item ''coindesk'' ''https://a/'' ''T'' ''h'' 1000000]" 31000000 0]
  by (simp add: ex_item_def)





text \<open>
  Claim C2, as stated, fails: \<open>canonicalize_url\<close> keeps a scheme that is present, so the
  URL with the scheme \<open>http\<close> and the URL with the scheme \<open>https\<close> have different
  canonical strings, and \<open>dedupe_items\<close> keeps both records when their hashes differ and
  their titles are not similar.
\<close>

theorem canonicalize_url_keeps_scheme:
  "canonicalize_url ''http://WWW.Example.com/a#frag'' = Inr ''http://example.com/a''
   \<and> canonicalize_url ''https://example.com/a'' = Inr ''https://example.com/a''
   \<and> canonicalize_url ''http://WWW.Example.com/a#frag'' \<noteq> canonicalize_url ''https://example.com/a''
   \<and> dedupe_items ex_tsr
        [ex_item ''coindesk'' ''http://WWW.Example.com/a#frag'' ''One'' ''h1'' 0,
         ex_item ''theblock'' ''https://example.com/a'' ''Two'' ''h2'' 1] 1
       = Inr [ex_item ''coindesk'' ''http://WWW.Example.com/a#frag'' ''One'' ''h1'' 0,
              ex_item ''theblock'' ''https://example.com/a'' ''Two'' ''h2'' 1]"
  by code_simp

text \<open>
  Claim C2, amended. With the same scheme the two URLs of the example have the same
  canonical string, and of two records whose URLs have the same canonical string
  \<open>dedupe_items\<close> drops the second, whatever their titles and hashes, the similarity and
  the threshold.
\<close>

theorem dedupe_url_branch:
  "canonicalize_url ''https://WWW.Example.com/a#frag'' = canonicalize_url ''https://example.com/a''
   \<and> (canonicalize_url (url a) = Inr u \<and> canonicalize_url (url b) = Inr u
        \<longrightarrow> dedupe_items tsr [a, b] threshold = Inr [a])"
proof -
  have "canonicalize_url ''https://WWW.Example.com/a#frag'' = canonicalize_url ''https://example.com/a''"
    by code_simp
  then show ?thesis by (simp add: dedupe_items_def)
qed

theorem dedupe_url_branch_witness:
  "canonicalize_url (url (ex_item ''coindesk'' ''https://WWW.Example.com/a#frag'' ''One'' ''h1'' 0))
      = Inr ''https://example.com/a''
   \<and> canonicalize_url (url (ex_item ''theblock'' ''https://example.com/a'' ''Two'' ''h2'' 1))
      = Inr ''https://example.com/a''
   \<and> dedupe_items ex_tsr
        [ex_item ''coindesk'' ''https://WWW.Example.com/a#frag'' ''One'' ''h1'' 0,
         ex_item ''theblock'' ''https://example.com/a'' ''Two'' ''h2'' 1] 1
       = Inr [ex_item ''coindesk'' ''https://WWW.Example.com/a#frag'' ''One'' ''h1'' 0]"
proof -
  have a: "canonicalize_url (url (ex_item ''coindesk'' ''https://WWW.Example.com/a#frag'' ''One'' ''h1'' 0))
      = Inr ''https://example.com/a''" by code_simp
  have b: "canonicalize_url (url (ex_item ''theblock'' ''https://example.com/a'' ''Two'' ''h2'' 1))
      = Inr ''https://example.com/a''" by code_simp
  show ?thesis
    using a b dedupe_url_branch [of "ex_item ''coindesk'' ''https://WWW.Example.com/a#frag'' ''One'' ''h1'' 0"
      "''https://example.com/a''" "ex_item ''theblock'' ''https://example.com/a'' ''Two'' ''h2'' 1" ex_tsr 1]
    by simp
qed

text \<open>
  Claim C1, as stated, fails for \<open>compute_hash\<close>: the content is digested as it is
  passed, not normalized. With the digest replaced by the identity, the byte string that
  is digested for the title \<open>T\<close> and the content \<open>a  b\<close> (two spaces) is not the one the
  claim names.
\<close>

theorem compute_hash_content_as_passed:
  "compute_hash (\<lambda>bs. bs) ''T'' ''a  b'' = encode_utf8 ''t::a  b''
   \<and> encode_utf8 (normalize_title ''T'' @ ''::'' @ normalize_text ''a  b'') = encode_utf8 ''t::a b''
   \<and> compute_hash (\<lambda>bs. bs) ''T'' ''a  b''
       \<noteq> (\<lambda>bs. bs) (encode_utf8 (normalize_title ''T'' @ ''::'' @ normalize_text ''a  b''))"
  by code_simp

text \<open>
  Claim C1, amended. \<open>compute_hash\<close> digests the normalized title, two colons and the
  content as passed; for a content that is already normalized this is the digest the
  claim names. The record builder passes the normalized content, so the hash it stores is
  the digest the claim names, and two records built from titles and contents that are
  equal after normalization have equal hashes.
\<close>

theorem fingerprint_of_normalized:
  "compute_hash sha256_hexdigest t c
     = sha256_hexdigest (encode_utf8 (normalize_title t @ ''::'' @ c))
   \<and> (normalize_text c = c \<longrightarrow>
        compute_hash sha256_hexdigest t c
          = sha256_hexdigest (encode_utf8 (normalize_title t @ ''::'' @ normalize_text c)))
   \<and> hydrate_hash sha256_hexdigest t c
       = sha256_hexdigest (encode_utf8 (normalize_title t @ ''::'' @ normalize_text c))
   \<and> (normalize_title t = normalize_title t' \<and> normalize_text c = normalize_text c'
        \<longrightarrow> hydrate_hash sha256_hexdigest t c = hydrate_hash sha256_hexdigest t' c')"
  by (simp add: compute_hash_def hydrate_hash_def)

theorem fingerprint_of_normalized_witness:
  "normalize_text ''a b'' = ''a b''
   \<and> normalize_title ''Hello  World'' = normalize_title '' hello world''
   \<and> normalize_text ''a  b'' = normalize_text ''a b''
   \<and> compute_hash (\<lambda>bs. bs) ''T'' ''a b''
       = encode_utf8 (normalize_title ''T'' @ ''::'' @ normalize_text ''a b'')
   \<and> hydrate_hash (\<lambda>bs. bs) ''Hello  World'' ''a  b''
       = hydrate_hash (\<lambda>bs. bs) '' hello world'' ''a b''"
proof -
  have a: "normalize_text ''a b'' = ''a b''" by code_simp
  have b: "normalize_title ''Hello  World'' = normalize_title '' hello world''" by code_simp
  have c: "normalize_text ''a  b'' = normalize_text ''a b''" by code_simp
  have x: "compute_hash (\<lambda>bs. bs) ''T'' ''a b''
       = encode_utf8 (normalize_title ''T'' @ ''::'' @ normalize_text ''a b'')"
    using a fingerprint_of_normalized [of "\<lambda>bs. bs" "''T''" "''a b''" "''T''" "''a b''"]
    by blast
  have y: "hydrate_hash (\<lambda>bs. bs) ''Hello  World'' ''a  b''
       = hydrate_hash (\<lambda>bs. bs) '' hello world'' ''a b''"
    using b c
      fingerprint_of_normalized [of "\<lambda>bs. bs" "''Hello  World''" "''a  b''" "'' hello world''" "''a b''"]
    by blast
  show ?thesis
    by (intro conjI) (rule a b c x y)+
qed

lemma score_1h: "score_cluster 3600000000 [ex_item ''coindesk'' ''https://a/'' ''T'' ''h'' 0] 0 = 3958 / 10000"
  by (simp add: score_cluster_def freshness_def delta_hours_def total_seconds_def max_list_def
      source_weight_def SOURCE_WEIGHTS_def ex_item_def round4_def Let_def)

lemma score_13h: "score_cluster 46800000000 [ex_item ''coindesk'' ''https://a/'' ''T'' ''h'' 0] 0 = 3458 / 10000"
  by (simp add: score_cluster_def freshness_def delta_hours_def total_seconds_def max_list_def
      source_weight_def SOURCE_WEIGHTS_def ex_item_def round4_def Let_def)


lemma build_cluster_blank:
  "map_sum id blank (build_cluster tsr u1 n1 c) = map_sum id blank (build_cluster tsr u2 n2 c)"
  by (cases c) (simp_all add: build_cluster_def blank_def Let_def)

lemma build_results_blank:
  "map_sum id (map blank) (build_results tsr e1 k cs)
     = map_sum id (map blank) (build_results tsr e2 k' cs)"
proof (induction cs arbitrary: k k')
  case Nil
  then show ?case by simp
next
  case (Cons c cs)
  have h: "map_sum id blank (build_cluster tsr (uuid4 e1 k) (clock e1 k) c)
         = map_sum id blank (build_cluster tsr (uuid4 e2 k') (clock e2 k') c)"
    by (rule build_cluster_blank)
  show ?case
  proof (cases "build_cluster tsr (uuid4 e1 k) (clock e1 k) c")
    case (Inl e)
    with h show ?thesis by (cases "build_cluster tsr (uuid4 e2 k') (clock e2 k') c") simp_all
  next
    case (Inr r)
    with h obtain r' where r': "build_cluster tsr (uuid4 e2 k') (clock e2 k') c = Inr r'"
      "blank r = blank r'"
      by (cases "build_cluster tsr (uuid4 e2 k') (clock e2 k') c") simp_all
    show ?thesis
      using Cons.IH [of "Suc k" "Suc k'"] Inr r'
      by (cases "build_results tsr e1 (Suc k) cs"; cases "build_results tsr e2 (Suc k') cs") simp_all
  qed
qed

lemma build_results_agree:
  "\<forall>j < length cs. uuid4 e1 (k + j) = uuid4 e2 (k + j) \<and> clock e1 (k + j) = clock e2 (k + j)
   \<Longrightarrow> build_results tsr e1 k cs = build_results tsr e2 k cs"
proof (induction cs arbitrary: k)
  case Nil
  then show ?case by simp
next
  case (Cons c cs)
  from Cons.prems have h0: "uuid4 e1 k = uuid4 e2 k \<and> clock e1 k = clock e2 k"
    by (metis add.right_neutral length_greater_0_conv list.distinct(1))
  have "\<forall>j < length cs. uuid4 e1 (Suc k + j) = uuid4 e2 (Suc k + j)
          \<and> clock e1 (Suc k + j) = clock e2 (Suc k + j)"
  proof (intro allI impI)
    fix j assume "j < length cs"
    then have "Suc j < length (c # cs)" by simp
    with Cons.prems show "uuid4 e1 (Suc k + j) = uuid4 e2 (Suc k + j)
          \<and> clock e1 (Suc k + j) = clock e2 (Suc k + j)"
      by (metis add_Suc_shift)
  qed
  then have "build_results tsr e1 (Suc k) cs = build_results tsr e2 (Suc k) cs"
    by (rule Cons.IH)
  with h0 show ?case by (simp split: sum.splits)
qed

text \<open>
  Claim C3, amended. The cluster identifiers and the clock readings are taken from the
  surroundings, not from the arguments. Two invocations on the same arguments give
  results that agree up to the identifiers and the scores, and that agree altogether when
  the identifiers drawn and the clock readings are the same for every cluster.
\<close>

theorem cluster_output_up_to_ambient:
  "map_sum id (map blank) (cluster_news_items tsr env1 items w t)
     = map_sum id (map blank) (cluster_news_items tsr env2 items w t)
   \<and> ((\<forall>k < n_clusters tsr items w t. uuid4 env1 k = uuid4 env2 k \<and> clock env1 k = clock env2 k)
        \<longrightarrow> cluster_news_items tsr env1 items w t = cluster_news_items tsr env2 items w t)"
proof (cases "cluster_groups tsr items w t")
  case (Inl e)
  then show ?thesis by (simp add: cluster_news_items_def)
next
  case (Inr cs)
  have a: "map_sum id (map blank) (build_results tsr env1 0 cs)
     = map_sum id (map blank) (build_results tsr env2 0 cs)"
    by (rule build_results_blank)
  have b: "(\<forall>k < length cs. uuid4 env1 k = uuid4 env2 k \<and> clock env1 k = clock env2 k)
     \<longrightarrow> build_results tsr env1 0 cs = build_results tsr env2 0 cs"
    using build_results_agree [of cs env1 0 env2 tsr] by simp
  show ?thesis using Inr a b by (simp add: cluster_news_items_def n_clusters_def)
qed

text \<open>
  Claim C3, as stated, fails: two invocations on the same record, window and threshold,
  with the same identifiers but clock readings of one hour and of thirteen hours after
  the publication, return different results, with the scores 0.3958 and 0.3458.
\<close>

theorem cluster_output_depends_on_clock:
  "cluster_news_items ex_tsr (ex_env 3600000000)
      [ex_item ''coindesk'' ''https://a/'' ''T'' ''h'' 0] 15 1
    \<noteq> cluster_news_items ex_tsr (ex_env 46800000000)
      [ex_item ''coindesk'' ''https://a/'' ''T'' ''h'' 0] 15 1
   \<and> score_cluster 3600000000 [ex_item ''coindesk'' ''https://a/'' ''T'' ''h'' 0] 0 = 3958 / 10000
   \<and> score_cluster 46800000000 [ex_item ''coindesk'' ''https://a/'' ''T'' ''h'' 0] 0 = 3458 / 10000"
proof -
  have g: "cluster_groups ex_tsr [ex_item ''coindesk'' ''https://a/'' ''T'' ''h'' 0] 15 1
      = Inr [[ex_item ''coindesk'' ''https://a/'' ''T'' ''h'' 0]]"
    by (simp add: cluster_groups_def)
  have i: "intra_similarity ex_tsr [ex_item ''coindesk'' ''https://a/'' ''T'' ''h'' 0] = 0"
    by (simp add: intra_similarity_def)
  show ?thesis
    using score_1h score_13h
    by (simp add: cluster_news_items_def g build_cluster_def i ex_env_def Let_def)
qed

theorem cluster_output_up_to_ambient_witness:
  "n_clusters ex_tsr [ex_item ''coindesk'' ''https://a/'' ''T'' ''h'' 0] 15 1 = 1
   \<and> uuid4 (ex_env 5) 0 = uuid4 (ex_env 5\<lparr>clock := (\<lambda>k. if k = 0 then 5 else 7)\<rparr>) 0
   \<and> clock (ex_env 5) 0 = clock (ex_env 5\<lparr>clock := (\<lambda>k. if k = 0 then 5 else 7)\<rparr>) 0
   \<and> clock (ex_env 5) 1 \<noteq> clock (ex_env 5\<lparr>clock := (\<lambda>k. if k = 0 then 5 else 7)\<rparr>) 1
   \<and> cluster_news_items ex_tsr (ex_env 5) [ex_item ''coindesk'' ''https://a/'' ''T'' ''h'' 0] 15 1
      = cluster_news_items ex_tsr (ex_env 5\<lparr>clock := (\<lambda>k. if k = 0 then 5 else 7)\<rparr>)
          [ex_item ''coindesk'' ''https://a/'' ''T'' ''h'' 0] 15 1"
proof -
  have g: "cluster_groups ex_tsr [ex_item ''coindesk'' ''https://a/'' ''T'' ''h'' 0] 15 1
      = Inr [[ex_item ''coindesk'' ''https://a/'' ''T'' ''h'' 0]]"
    by (simp add: cluster_groups_def)
  have p: "\<forall>k < n_clusters ex_tsr [ex_item ''coindesk'' ''https://a/'' ''T'' ''h'' 0] 15 1.
       uuid4 (ex_env 5) k = uuid4 (ex_env 5\<lparr>clock := (\<lambda>k. if k = 0 then 5 else 7)\<rparr>) k
     \<and> clock (ex_env 5) k = clock (ex_env 5\<lparr>clock := (\<lambda>k. if k = 0 then 5 else 7)\<rparr>) k"
    by (simp add: n_clusters_def g ex_env_def)
  have n: "n_clusters ex_tsr [ex_item ''coindesk'' ''https://a/'' ''T'' ''h'' 0] 15 1 = 1"
    by (simp add: n_clusters_def g)
  have e: "cluster_news_items ex_tsr (ex_env 5) [ex_item ''coindesk'' ''https://a/'' ''T'' ''h'' 0] 15 1
      = cluster_news_items ex_tsr (ex_env 5\<lparr>clock := (\<lambda>k. if k = 0 then 5 else 7)\<rparr>)
          [ex_item ''coindesk'' ''https://a/'' ''T'' ''h'' 0] 15 1"
    using p cluster_output_up_to_ambient [of ex_tsr "ex_env 5"
        "[ex_item ''coindesk'' ''https://a/'' ''T'' ''h'' 0]" 15 1
        "ex_env 5\<lparr>clock := (\<lambda>k. if k = 0 then 5 else 7)\<rparr>"]
    by blast
  show ?thesis using n e by (simp add: ex_env_def)
qed

lemma find_duplicate_ok:
  "url_ok item \<Longrightarrow> \<forall>e\<in>set acc. url_ok e
   \<Longrightarrow> find_duplicate tsr t acc item = Inr (\<exists>e\<in>set acc. matches tsr t e item)"
  by (induction acc) (auto simp: url_ok_def matches_def split: sum.splits)

lemma dedupe_loop_append:
  "dedupe_loop tsr t acc (xs @ ys)
     = (case dedupe_loop tsr t acc xs of Inl e \<Rightarrow> Inl e | Inr acc' \<Rightarrow> dedupe_loop tsr t acc' ys)"
  by (induction xs arbitrary: acc) (simp_all split: sum.splits)

lemma dedupe_loop_subseq:
  "dedupe_loop tsr t acc xs = Inr ys \<Longrightarrow> \<exists>zs. ys = acc @ zs \<and> subseq zs xs"
proof (induction xs arbitrary: acc)
  case Nil
  then show ?case by simp
next
  case (Cons x xs)
  show ?case
  proof (cases "find_duplicate tsr t acc x")
    case (Inl e)
    with Cons.prems show ?thesis by simp
  next
    case (Inr d)
    show ?thesis
    proof (cases d)
      case True
      with Inr Cons.prems have "dedupe_loop tsr t acc xs = Inr ys" by simp
      then obtain zs where "ys = acc @ zs" "subseq zs xs" using Cons.IH by blast
      then show ?thesis by auto
    next
      case False
      with Inr Cons.prems have "dedupe_loop tsr t (acc @ [x]) xs = Inr ys" by simp
      then obtain zs where "ys = (acc @ [x]) @ zs" "subseq zs xs" using Cons.IH by blast
      then have "ys = acc @ (x # zs)" "subseq (x # zs) (x # xs)" by simp_all
      then show ?thesis by blast
    qed
  qed
qed

lemma dedupe_loop_total:
  "\<forall>x\<in>set acc \<union> set xs. url_ok x \<Longrightarrow> \<exists>ys. dedupe_loop tsr t acc xs = Inr ys"
proof (induction xs arbitrary: acc)
  case Nil
  then show ?case by simp
next
  case (Cons x xs)
  have fd: "find_duplicate tsr t acc x = Inr (\<exists>e\<in>set acc. matches tsr t e x)"
    using Cons.prems by (intro find_duplicate_ok) auto
  have a: "\<exists>ys. dedupe_loop tsr t acc xs = Inr ys" using Cons.prems by (intro Cons.IH) auto
  have b: "\<exists>ys. dedupe_loop tsr t (acc @ [x]) xs = Inr ys" using Cons.prems by (intro Cons.IH) auto
  show ?case using fd a b by simp
qed

lemma clean_snoc:
  assumes "clean tsr t acc" "find_duplicate tsr t acc x = Inr False"
  shows "clean tsr t (acc @ [x])"
  unfolding clean_def
proof (intro allI impI)
  fix k assume "k < length (acc @ [x])"
  then consider "k < length acc" | "k = length acc" by fastforce
  then show "find_duplicate tsr t (take k (acc @ [x])) ((acc @ [x]) ! k) = Inr False"
  proof cases
    case 1
    with assms(1) show ?thesis by (simp add: clean_def nth_append)
  next
    case 2
    with assms(2) show ?thesis by simp
  qed
qed

lemma clean_loop:
  "clean tsr t acc \<Longrightarrow> dedupe_loop tsr t acc xs = Inr ys \<Longrightarrow> clean tsr t ys"
proof (induction xs arbitrary: acc)
  case Nil
  then show ?case by simp
next
  case (Cons x xs)
  show ?case
  proof (cases "find_duplicate tsr t acc x")
    case (Inl e)
    with Cons.prems show ?thesis by simp
  next
    case (Inr d)
    show ?thesis
    proof (cases d)
      case True
      with Inr Cons.prems show ?thesis using Cons.IH [of acc] by simp
    next
      case False
      with Inr Cons.prems have "clean tsr t (acc @ [x])" by (intro clean_snoc) simp_all
      with False Inr Cons.prems show ?thesis using Cons.IH [of "acc @ [x]"] by simp
    qed
  qed
qed

lemma clean_rerun:
  "clean tsr t (acc @ ys) \<Longrightarrow> dedupe_loop tsr t acc ys = Inr (acc @ ys)"
proof (induction ys arbitrary: acc)
  case Nil
  then show ?case by simp
next
  case (Cons y ys)
  have "find_duplicate tsr t (take (length acc) (acc @ y # ys)) ((acc @ y # ys) ! length acc)
          = Inr False"
    using Cons.prems unfolding clean_def by (metis length_append length_Cons less_add_Suc1 add_Suc_right)
  then have fd: "find_duplicate tsr t acc y = Inr False" by simp
  have "clean tsr t ((acc @ [y]) @ ys)" using Cons.prems by simp
  then have "dedupe_loop tsr t (acc @ [y]) ys = Inr ((acc @ [y]) @ ys)" by (rule Cons.IH)
  with fd show ?case by simp
qed

lemma dedupe_items_rerun:
  assumes "dedupe_items tsr items t = Inr ys"
  shows "dedupe_items tsr ys t = Inr ys"
proof -
  have c0: "clean tsr t []" by (simp add: clean_def)
  have "clean tsr t ys" using clean_loop [OF c0] assms by (simp add: dedupe_items_def)
  then show ?thesis using clean_rerun [of tsr t "[]" ys] by (simp add: dedupe_items_def)
qed

text \<open>
  Claim C4. Running \<open>dedupe_items\<close> on its own result, with the same threshold, gives the
  same result: the second run returns the list it was given (and raises where the first
  run raised). When every URL of the input canonicalizes, the first run returns a list.
\<close>

theorem dedupe_idempotent:
  "(case dedupe_items tsr items t of Inl e \<Rightarrow> Inl e | Inr ys \<Rightarrow> dedupe_items tsr ys t)
     = dedupe_items tsr items t
   \<and> ((\<forall>x\<in>set items. url_ok x)
        \<longrightarrow> (\<exists>ys. dedupe_items tsr items t = Inr ys \<and> dedupe_items tsr ys t = Inr ys))"
proof -
  have a: "(case dedupe_items tsr items t of Inl e \<Rightarrow> Inl e | Inr ys \<Rightarrow> dedupe_items tsr ys t)
     = dedupe_items tsr items t"
    by (cases "dedupe_items tsr items t") (simp_all add: dedupe_items_rerun)
  have b: "(\<forall>x\<in>set items. url_ok x)
        \<longrightarrow> (\<exists>ys. dedupe_items tsr items t = Inr ys \<and> dedupe_items tsr ys t = Inr ys)"
  proof
    assume "\<forall>x\<in>set items. url_ok x"
    then obtain ys where "dedupe_items tsr items t = Inr ys"
      using dedupe_loop_total [of "[]" items tsr t] by (auto simp: dedupe_items_def)
    then show "\<exists>ys. dedupe_items tsr items t = Inr ys \<and> dedupe_items tsr ys t = Inr ys"
      using dedupe_items_rerun by blast
  qed
  show ?thesis using a b by blast
qed

text \<open>
  Claim C6. For an input whose URLs canonicalize, \<open>dedupe_items\<close> returns a subsequence
  of the input. The record at position \<open>i\<close> is appended to the records accepted from the
  positions before \<open>i\<close> exactly when none of them matches it by hash, canonical URL or
  title similarity, and the accepted records are kept as they are. The scan of the
  accepted records stops at the first match, whatever comes after it.
\<close>

theorem dedupe_first_seen_wins:
  assumes "\<forall>x\<in>set items. url_ok x"
  shows "\<exists>ys. dedupe_items tsr items t = Inr ys \<and> subseq ys items
     \<and> (\<forall>i < length items.
          dedupe_items tsr (take (Suc i) items) t
            = (case dedupe_items tsr (take i items) t of
                 Inl e \<Rightarrow> Inl e
               | Inr acc \<Rightarrow> if \<exists>e\<in>set acc. matches tsr t e (items ! i) then Inr acc
                           else Inr (acc @ [items ! i])))
     \<and> (\<forall>pre e post x. url_ok x \<and> (\<forall>p\<in>set pre. url_ok p \<and> \<not> matches tsr t p x)
           \<and> url_ok e \<and> matches tsr t e x
          \<longrightarrow> find_duplicate tsr t (pre @ e # post) x = Inr True)"
proof -
  obtain ys where ys: "dedupe_items tsr items t = Inr ys"
    using assms dedupe_loop_total [of "[]" items tsr t] by (auto simp: dedupe_items_def)
  then have sub: "subseq ys items"
    using dedupe_loop_subseq [of tsr t "[]" items ys] by (auto simp: dedupe_items_def)
  have step: "dedupe_items tsr (take (Suc i) items) t
            = (case dedupe_items tsr (take i items) t of
                 Inl e \<Rightarrow> Inl e
               | Inr acc \<Rightarrow> if \<exists>e\<in>set acc. matches tsr t e (items ! i) then Inr acc
                           else Inr (acc @ [items ! i]))" if i: "i < length items" for i
  proof -
    have ok_pre: "\<forall>x\<in>set [] \<union> set (take i items). url_ok x"
      using assms by (auto dest: in_set_takeD)
    then obtain acc where acc: "dedupe_loop tsr t [] (take i items) = Inr acc"
      using dedupe_loop_total by blast
    then have "subseq acc (take i items)"
      using dedupe_loop_subseq [of tsr t "[]" "take i items" acc] by auto
    then have "set acc \<subseteq> set items"
    proof -
      assume s: "subseq acc (take i items)"
      show ?thesis
      proof
        fix e assume "e \<in> set acc"
        with s obtain y where "y \<in> set (take i items)" "e = y"
          by (auto dest: list_emb_set)
        then show "e \<in> set items" by (auto dest: in_set_takeD)
      qed
    qed
    then have okacc: "\<forall>e\<in>set acc. url_ok e" using assms by auto
    have okx: "url_ok (items ! i)" using assms i by simp
    have fd: "find_duplicate tsr t acc (items ! i)
                = Inr (\<exists>e\<in>set acc. matches tsr t e (items ! i))"
      using okx okacc by (rule find_duplicate_ok)
    have "take (Suc i) items = take i items @ [items ! i]"
      using i by (rule take_Suc_conv_app_nth)
    then show ?thesis
      using acc fd by (simp add: dedupe_items_def dedupe_loop_append)
  qed
  have short: "find_duplicate tsr t (pre @ e # post) x = Inr True"
    if "url_ok x \<and> (\<forall>p\<in>set pre. url_ok p \<and> \<not> matches tsr t p x) \<and> url_ok e \<and> matches tsr t e x"
    for pre e post x
    using that by (induction pre) (auto simp: url_ok_def matches_def split: sum.splits)
  show ?thesis using ys sub step short by blast
qed

lemma ex_dedupe: "dedupe_items ex_tsr [ex_a, ex_b, ex_b2] 1 = Inr [ex_a, ex_b]"
  by code_simp

lemma ex_url_ok: "\<forall>x\<in>set [ex_a, ex_b, ex_b2]. url_ok x"
  by code_simp

theorem dedupe_idempotent_witness:
  "url_ok ex_a \<and> url_ok ex_b \<and> url_ok ex_b2
   \<and> dedupe_items ex_tsr [ex_a, ex_b, ex_b2] 1 = Inr [ex_a, ex_b]
   \<and> dedupe_items ex_tsr [ex_a, ex_b] 1 = Inr [ex_a, ex_b]"
proof -
  obtain ys where ys: "dedupe_items ex_tsr [ex_a, ex_b, ex_b2] 1 = Inr ys"
    "dedupe_items ex_tsr ys 1 = Inr ys"
    using ex_url_ok dedupe_idempotent [where tsr = ex_tsr and items = "[ex_a, ex_b, ex_b2]" and t = 1] by blast
  then have "ys = [ex_a, ex_b]" using ex_dedupe by simp
  with ys ex_url_ok ex_dedupe show ?thesis by simp
qed

theorem dedupe_first_seen_wins_witness:
  "url_ok ex_a \<and> url_ok ex_b \<and> url_ok ex_b2
   \<and> dedupe_items ex_tsr [ex_a, ex_b, ex_b2] 1 = Inr [ex_a, ex_b]
   \<and> subseq [ex_a, ex_b] [ex_a, ex_b, ex_b2]
   \<and> \<not> matches ex_tsr 1 ex_a ex_b2 \<and> matches ex_tsr 1 ex_b ex_b2
   \<and> find_duplicate ex_tsr 1 ([ex_a] @ ex_b # [ex_a]) ex_b2 = Inr True"
proof -
  have m: "\<not> matches ex_tsr 1 ex_a ex_b2" "matches ex_tsr 1 ex_b ex_b2"
    "url_ok ex_a" "url_ok ex_b" "url_ok ex_b2"
    by code_simp+
  obtain ys where ys: "dedupe_items ex_tsr [ex_a, ex_b, ex_b2] 1 = Inr ys"
    "subseq ys [ex_a, ex_b, ex_b2]"
    and short: "\<forall>pre e post x. url_ok x \<and> (\<forall>p\<in>set pre. url_ok p \<and> \<not> matches ex_tsr 1 p x)
           \<and> url_ok e \<and> matches ex_tsr 1 e x
          \<longrightarrow> find_duplicate ex_tsr 1 (pre @ e # post) x = Inr True"
    using dedupe_first_seen_wins [OF ex_url_ok, where tsr = ex_tsr and t = 1] by blast
  from ys have y: "ys = [ex_a, ex_b]" using ex_dedupe by simp
  have "find_duplicate ex_tsr 1 ([ex_a] @ ex_b # [ex_a]) ex_b2 = Inr True"
    using short m by (metis empty_iff empty_set set_ConsD)
  with ys y ex_url_ok m show ?thesis by simp
qed

lemma concat_update_snoc:
  "i < length cs \<Longrightarrow> mset (concat (cs[i := cs ! i @ [x]])) = mset (concat cs) + {#x#}"
proof (induction cs arbitrary: i)
  case Nil
  then show ?case by simp
next
  case (Cons c cs)
  then show ?case by (cases i) simp_all
qed

lemma find_cluster_result:
  "[] \<notin> set clusters \<Longrightarrow>
   \<exists>r. find_cluster tsr window t clusters item = Inr r \<and> (\<forall>i. r = Some i \<longrightarrow> i < length clusters)"
proof (induction clusters)
  case Nil
  then show ?case by simp
next
  case (Cons c cs)
  then obtain r where r: "find_cluster tsr window t cs item = Inr r"
    "\<forall>i. r = Some i \<longrightarrow> i < length cs" by auto
  from Cons.prems have "c \<noteq> []" by auto
  with r show ?case by (cases r) (auto simp: Let_def)
qed

lemma group_loop_partition:
  "[] \<notin> set clusters \<Longrightarrow>
   \<exists>gs. group_loop tsr window t clusters items = Inr gs \<and> [] \<notin> set gs
        \<and> mset (concat gs) = mset (concat clusters) + mset items"
proof (induction items arbitrary: clusters)
  case Nil
  then show ?case by simp
next
  case (Cons x xs)
  obtain r where r: "find_cluster tsr window t clusters x = Inr r"
    "\<forall>i. r = Some i \<longrightarrow> i < length clusters"
    using find_cluster_result [OF Cons.prems] by blast
  show ?case
  proof (cases r)
    case None
    have "[] \<notin> set (clusters @ [[x]])" using Cons.prems by simp
    from Cons.IH [OF this] r None show ?thesis by simp
  next
    case (Some i)
    with r have i: "i < length clusters" by simp
    have "set (clusters[i := clusters ! i @ [x]]) \<subseteq> insert (clusters ! i @ [x]) (set clusters)"
      by (rule set_update_subset_insert)
    then have "[] \<notin> set (clusters[i := clusters ! i @ [x]])" using Cons.prems by auto
    from Cons.IH [OF this] r Some i show ?thesis by (simp add: concat_update_snoc)
  qed
qed

lemma build_results_total:
  "[] \<notin> set gs \<Longrightarrow>
   \<exists>cs. build_results tsr env k gs = Inr cs \<and> map links cs = map (map link_of) gs"
proof (induction gs arbitrary: k)
  case Nil
  then show ?case by simp
next
  case (Cons g gs)
  then obtain cs where cs: "build_results tsr env (Suc k) gs = Inr cs"
    "map links cs = map (map link_of) gs" by auto
  from Cons.prems obtain a rest where g: "g = a # rest" by (cases g) auto
  show ?case using cs g by (simp add: build_cluster_def Let_def)
qed

text \<open>
  Claim C10. The clusterer raises nothing. The groups it forms are not empty and their
  concatenation has the records of the input, each as often as the input has it; the
  clusters returned are the groups in order, the links of a cluster being the links of
  the members of its group.
\<close>

theorem clusters_partition:
  "\<exists>gs cs. cluster_groups tsr items window_minutes threshold = Inr gs
      \<and> cluster_news_items tsr env items window_minutes threshold = Inr cs
      \<and> map links cs = map (map link_of) gs
      \<and> [] \<notin> set gs
      \<and> mset (concat gs) = mset items"
proof -
  have "[] \<notin> set ([] :: news_item list list)" by simp
  from group_loop_partition [OF this]
  obtain gs where gs: "cluster_groups tsr items window_minutes threshold = Inr gs"
    "[] \<notin> set gs" "mset (concat gs) = mset items"
    unfolding cluster_groups_def Let_def by fastforce
  obtain cs where "build_results tsr env 0 gs = Inr cs" "map links cs = map (map link_of) gs"
    using build_results_total [OF gs(2)] by blast
  with gs show ?thesis by (simp add: cluster_news_items_def)
qed

lemma find_cluster_first_match:
  "[] \<notin> set clusters \<Longrightarrow>
   find_cluster tsr window t clusters item
     = Inr (if \<exists>g\<in>set clusters. joins tsr window t (last g) item
            then Some (length (takeWhile (\<lambda>g. \<not> joins tsr window t (last g) item) clusters))
            else None)"
  by (induction clusters) (auto simp: joins_def Let_def)

lemma group_loop_step:
  "[] \<notin> set clusters \<Longrightarrow>
   group_loop tsr window t clusters (item # items)
     = group_loop tsr window t
         (if \<exists>g\<in>set clusters. joins tsr window t (last g) item
          then clusters[length (takeWhile (\<lambda>g. \<not> joins tsr window t (last g) item) clusters)
                  := clusters ! length (takeWhile (\<lambda>g. \<not> joins tsr window t (last g) item) clusters)
                       @ [item]]
          else clusters @ [[item]]) items"
  by (simp add: find_cluster_first_match)

lemma three_records_groups:
  assumes "sort_key published_at items = [a, b, c]"
  shows "cluster_groups tsr items window_minutes t
     = Inr (if joins tsr (window_minutes * 60000000) t a b
            then (if joins tsr (window_minutes * 60000000) t b c then [[a, b, c]] else [[a, b], [c]])
            else if joins tsr (window_minutes * 60000000) t a c then [[a, c], [b]]
            else if joins tsr (window_minutes * 60000000) t b c then [[a], [b, c]]
            else [[a], [b], [c]])"
  unfolding cluster_groups_def Let_def assms
  by (auto simp add: find_cluster_first_match simp del: find_cluster.simps)

text \<open>
  Claim C5. A candidate is compared, in time and in title, with the last member of a
  cluster, and joins the first cluster, in the order of creation, whose last member
  passes the test; otherwise it starts a cluster of its own. The batch is sorted by time
  first. For a batch of three records this fixes the result from the tests between the
  records alone: when the second joins the first, the third joins them exactly when it
  passes the test against the second, whatever its distance from the first, and is kept
  apart when it is outside the window of the second or its title is not similar to the
  title of the second.
\<close>

theorem chained_window:
  assumes "sort_key published_at items = [a, b, c]"
  shows "cluster_groups tsr items window_minutes t
       = Inr (if joins tsr (window_minutes * 60000000) t a b
              then (if joins tsr (window_minutes * 60000000) t b c
                    then [[a, b, c]] else [[a, b], [c]])
              else if joins tsr (window_minutes * 60000000) t a c then [[a, c], [b]]
              else if joins tsr (window_minutes * 60000000) t b c then [[a], [b, c]]
              else [[a], [b], [c]])
     \<and> (joins tsr (window_minutes * 60000000) t a b \<and> joins tsr (window_minutes * 60000000) t b c
          \<longrightarrow> cluster_groups tsr items window_minutes t = Inr [[a, b, c]])
     \<and> (joins tsr (window_minutes * 60000000) t a b \<and> \<not> joins tsr (window_minutes * 60000000) t b c
          \<longrightarrow> cluster_groups tsr items window_minutes t = Inr [[a, b], [c]])
     \<and> ([] \<notin> set clusters \<longrightarrow>
          find_cluster tsr window t clusters item
            = Inr (if \<exists>g\<in>set clusters. joins tsr window t (last g) item
                   then Some (length (takeWhile (\<lambda>g. \<not> joins tsr window t (last g) item) clusters))
                   else None))
     \<and> ([] \<notin> set clusters \<longrightarrow>
          group_loop tsr window t clusters (item # rest)
            = group_loop tsr window t
                (if \<exists>g\<in>set clusters. joins tsr window t (last g) item
                 then clusters[length (takeWhile (\<lambda>g. \<not> joins tsr window t (last g) item) clusters)
                   := clusters ! length (takeWhile (\<lambda>g. \<not> joins tsr window t (last g) item) clusters)
                        @ [item]]
                 else clusters @ [[item]]) rest)
     \<and> cluster_groups tsr batch window_minutes t
         = group_loop tsr (window_minutes * 60000000) t [] (sort_key published_at batch)"
proof -
  note g = three_records_groups [OF assms, of tsr window_minutes t]
  have f: "[] \<notin> set clusters \<longrightarrow>
          find_cluster tsr window t clusters item
            = Inr (if \<exists>g\<in>set clusters. joins tsr window t (last g) item
                   then Some (length (takeWhile (\<lambda>g. \<not> joins tsr window t (last g) item) clusters))
                   else None)"
    using find_cluster_first_match by blast
  have s: "[] \<notin> set clusters \<longrightarrow>
          group_loop tsr window t clusters (item # rest)
            = group_loop tsr window t
                (if \<exists>g\<in>set clusters. joins tsr window t (last g) item
                 then clusters[length (takeWhile (\<lambda>g. \<not> joins tsr window t (last g) item) clusters)
                   := clusters ! length (takeWhile (\<lambda>g. \<not> joins tsr window t (last g) item) clusters)
                        @ [item]]
                 else clusters @ [[item]]) rest"
    using group_loop_step by blast
  have d: "cluster_groups tsr batch window_minutes t
         = group_loop tsr (window_minutes * 60000000) t [] (sort_key published_at batch)"
    by (simp add: cluster_groups_def)
  have c1: "joins tsr (window_minutes * 60000000) t a b \<and> joins tsr (window_minutes * 60000000) t b c
          \<longrightarrow> cluster_groups tsr items window_minutes t = Inr [[a, b, c]]"
    using g by simp
  have c2: "joins tsr (window_minutes * 60000000) t a b \<and> \<not> joins tsr (window_minutes * 60000000) t b c
          \<longrightarrow> cluster_groups tsr items window_minutes t = Inr [[a, b], [c]]"
    using g by simp
  show ?thesis
    by (intro conjI) (rule g c1 c2 f s d)+
qed

theorem chained_window_witness:
  "sort_key published_at [ex_c3, ex_c1, ex_c2] = [ex_c1, ex_c2, ex_c3]
   \<and> joins ex_tsr (10 * 60000000) 1 ex_c1 ex_c2 \<and> joins ex_tsr (10 * 60000000) 1 ex_c2 ex_c3
   \<and> published_at ex_c3 - published_at ex_c1 > 10 * 60000000
   \<and> cluster_groups ex_tsr [ex_c3, ex_c1, ex_c2] 10 1 = Inr [[ex_c1, ex_c2, ex_c3]]
   \<and> sort_key published_at [ex_c4, ex_c2, ex_c1] = [ex_c1, ex_c2, ex_c4]
   \<and> \<bar>published_at ex_c4 - published_at ex_c2\<bar> > 10 * 60000000
   \<and> cluster_groups ex_tsr [ex_c4, ex_c2, ex_c1] 10 1 = Inr [[ex_c1, ex_c2], [ex_c4]]
   \<and> cluster_groups ex_tsr [ex_c3, ex_c1, ex_c2] 5 1 = Inr [[ex_c1], [ex_c2], [ex_c3]]
   \<and> find_cluster ex_tsr 600000000 1 [[ex_a], [ex_c1, ex_c2]] ex_c3 = Inr (Some 1)"
proof -
  have n: "normalize_title (title ex_c1) = ''same story''"
    "normalize_title (title ex_c2) = ''same story''"
    "normalize_title (title ex_c3) = ''same story''"
    "normalize_title (title ex_c4) = ''same story''"
    "normalize_title (title ex_a) = ''alpha''"
    by code_simp+
  have p: "published_at ex_c1 = 0" "published_at ex_c2 = 360000000"
    "published_at ex_c3 = 720000000" "published_at ex_c4 = 1200000000" "published_at ex_a = 0"
    by (simp_all add: ex_c1_def ex_c2_def ex_c3_def ex_c4_def ex_a_def ex_item_def)
  have s1: "sort_key published_at [ex_c3, ex_c1, ex_c2] = [ex_c1, ex_c2, ex_c3]"
    by (simp add: p)
  have s2: "sort_key published_at [ex_c4, ex_c2, ex_c1] = [ex_c1, ex_c2, ex_c4]"
    by (simp add: p)
  have j12: "joins ex_tsr (10 * 60000000) 1 ex_c1 ex_c2"
    and j23: "joins ex_tsr (10 * 60000000) 1 ex_c2 ex_c3"
    by (simp_all add: joins_def n p ex_tsr_def)
  have far: "published_at ex_c3 - published_at ex_c1 > 10 * 60000000" by (simp add: p)
  have far4: "\<bar>published_at ex_c4 - published_at ex_c2\<bar> > 10 * 60000000" by (simp add: p)
  have nj24: "\<not> joins ex_tsr (10 * 60000000) 1 ex_c2 ex_c4" by (simp add: joins_def p)
  have g1: "cluster_groups ex_tsr [ex_c3, ex_c1, ex_c2] 10 1 = Inr [[ex_c1, ex_c2, ex_c3]]"
    using chained_window [OF s1, where tsr = ex_tsr and window_minutes = 10 and t = 1] j12 j23
    by blast
  have g2: "cluster_groups ex_tsr [ex_c4, ex_c2, ex_c1] 10 1 = Inr [[ex_c1, ex_c2], [ex_c4]]"
    using chained_window [OF s2, where tsr = ex_tsr and window_minutes = 10 and t = 1] j12 nj24
    by blast
  have g3: "cluster_groups ex_tsr [ex_c3, ex_c1, ex_c2] 5 1 = Inr [[ex_c1], [ex_c2], [ex_c3]]"
    using chained_window [OF s1, where tsr = ex_tsr and window_minutes = 5 and t = 1]
    by (simp add: joins_def p)
  have ne: "[] \<notin> set [[ex_a], [ex_c1, ex_c2]]" by simp
  have f: "find_cluster ex_tsr 600000000 1 [[ex_a], [ex_c1, ex_c2]] ex_c3 = Inr (Some 1)"
    using chained_window [OF s1, where tsr = ex_tsr and window = 600000000 and t = 1
        and clusters = "[[ex_a], [ex_c1, ex_c2]]" and item = ex_c3] ne
    by (simp add: joins_def n p ex_tsr_def)
  show ?thesis
    by (intro conjI) (rule s1 s2 j12 j23 far far4 g1 g2 g3 f)+
qed

end
